theory Spec2Isabelle
  imports Complex_Main "HOL-Library.Word"
begin

section \<open>Errors and tensors\<close>

text \<open>
  The notebook builds a Transformer from the tensor library torch. Every exception the
  Python can raise is a value of \<open>error\<close>; a computation that may raise returns
  \<open>error + 'a\<close> with \<open>Inl\<close> for the exception.
\<close>

datatype error =
    NameError string
  | AttributeError string
  | AssertionError
  | ZeroDivisionError
  | ValueError
  | TypeError
  | IndexError
  | RuntimeError

definition bindE :: "error + 'a \<Rightarrow> ('a \<Rightarrow> error + 'b) \<Rightarrow> error + 'b" where
  "bindE m f = (case m of Inl e \<Rightarrow> Inl e | Inr x \<Rightarrow> f x)"

text \<open>
  A contiguous tensor is its shape and its elements in row-major order, as torch stores
  it. Floating-point numbers are modelled by the reals: rounding, overflow, infinities
  and nan are outside the model, and a division by 0, which gives inf or nan in torch,
  gives 0 here. Memory is unbounded: the sizes torch refuses by its 64-bit size
  arithmetic are modelled where the notebook creates a tensor from a size
  (\<open>check_size\<close>), and an allocation that fails because the machine has too little
  memory is outside the model.
\<close>

record 'a tensor =
  shape :: "nat list"
  data :: "'a list"

fun ravel :: "nat list \<Rightarrow> nat list \<Rightarrow> nat" where
  "ravel (n # ns) (i # is) = i * prod_list ns + ravel ns is"
| "ravel _ _ = 0"

fun unravel :: "nat list \<Rightarrow> nat \<Rightarrow> nat list" where
  "unravel [] k = []"
| "unravel (n # ns) k = (k div prod_list ns) # unravel ns (k mod prod_list ns)"

definition valid_index :: "nat list \<Rightarrow> nat list \<Rightarrow> bool" where
  "valid_index sh idx = list_all2 (<) idx sh"

definition get :: "'a tensor \<Rightarrow> nat list \<Rightarrow> 'a" where
  "get t idx = data t ! ravel (shape t) idx"

definition tensor_of_fun :: "nat list \<Rightarrow> (nat list \<Rightarrow> 'a) \<Rightarrow> 'a tensor" where
  "tensor_of_fun sh f = \<lparr>shape = sh, data = map (\<lambda>k. f (unravel sh k)) [0..<prod_list sh]\<rparr>"

definition map_tensor :: "('a \<Rightarrow> 'b) \<Rightarrow> 'a tensor \<Rightarrow> 'b tensor" where
  "map_tensor f t = \<lparr>shape = shape t, data = map f (data t)\<rparr>"

text \<open>Every tensor torch hands out has as many elements as its shape says.\<close>

definition well_formed :: "'a tensor \<Rightarrow> bool" where
  "well_formed t = (length (data t) = prod_list (shape t))"

section \<open>The causal mask\<close>

text \<open>
  \<^verbatim>\<open>torch.ones(shape)\<close> and \<^verbatim>\<open>torch.zeros(shape)\<close> make a tensor of 4-byte floats.
  A dimension that is not a 64-bit signed integer raises TypeError; a negative
  dimension raises RuntimeError, and so does a shape whose storage size in bytes is
  beyond \<open>2\<^sup>6\<^sup>3 - 1\<close>.
\<close>

definition int64_max :: int where
  "int64_max = 2 ^ 63 - 1"

definition check_size :: "int list \<Rightarrow> error + nat list" where
  "check_size sh =
     (if list_ex (\<lambda>n. n < - (2 ^ 63) \<or> int64_max < n) sh then Inl TypeError
      else if list_ex (\<lambda>n. n < 0) sh then Inl RuntimeError
      else if int64_max < 4 * prod_list sh then Inl RuntimeError
      else Inr (map nat sh))"

definition ones :: "int list \<Rightarrow> error + real tensor" where
  "ones sh = bindE (check_size sh) (\<lambda>s. Inr (tensor_of_fun s (\<lambda>_. 1)))"

text \<open>
  \<^verbatim>\<open>torch.triu(t, diagonal=k)\<close> keeps the entries of the last two axes with
  \<open>j - i \<ge> k\<close> and zeroes the others; it needs at least two axes.
\<close>

definition triu :: "real tensor \<Rightarrow> int \<Rightarrow> error + real tensor" where
  "triu t diagonal =
     (let r = length (shape t) in
      if r < 2 then Inl RuntimeError
      else Inr (tensor_of_fun (shape t)
             (\<lambda>idx. if diagonal \<le> int (idx ! (r - 1)) - int (idx ! (r - 2))
                    then get t idx else 0)))"

text \<open>\<^verbatim>\<open>.type(torch.uint8)\<close>: the fraction is cut off and the integer wraps to 8 bits.\<close>

definition trunc :: "real \<Rightarrow> int" where
  "trunc r = (if 0 \<le> r then \<lfloor>r\<rfloor> else \<lceil>r\<rceil>)"

definition to_uint8 :: "real tensor \<Rightarrow> 8 word tensor" where
  "to_uint8 t = map_tensor (\<lambda>r. word_of_int (trunc r)) t"

text \<open>\<^verbatim>\<open>t == c\<close> for a scalar \<open>c\<close>: the boolean tensor of the elementwise comparison.\<close>

definition eq_scalar :: "'a tensor \<Rightarrow> 'a \<Rightarrow> bool tensor" where
  "eq_scalar t c = map_tensor (\<lambda>v. v = c) t"

text \<open>
  \<^verbatim>\<open>
  def forward_mask(size):
      attn_shape = (1, size, size)
      mask = torch.triu(torch.ones(attn_shape), diagonal=1).type(torch.uint8)
      return mask==0
  \<close>
\<close>

definition forward_mask :: "int \<Rightarrow> error + bool tensor" where
  "forward_mask sz =
     (let attn_shape = [1, sz, sz] in
      bindE (ones attn_shape) (\<lambda>t1.
      bindE (triu t1 1) (\<lambda>u.
      let msk = to_uint8 u in
      Inr (eq_scalar msk 0))))"

section \<open>The tensor operations the notebook calls\<close>

text \<open>
  Broadcasting aligns two shapes at their last axes; an axis of size 1 is repeated.
  \<open>bidx sh idx\<close> is the index into a tensor of shape \<open>sh\<close> that an index
  \<open>idx\<close> of the broadcast result reads.
\<close>

fun broadcast_rev :: "nat list \<Rightarrow> nat list \<Rightarrow> nat list option" where
  "broadcast_rev [] bs = Some bs"
| "broadcast_rev as [] = Some as"
| "broadcast_rev (a # as) (b # bs) =
     (if a = b \<or> b = 1 then map_option ((#) a) (broadcast_rev as bs)
      else if a = 1 then map_option ((#) b) (broadcast_rev as bs)
      else None)"

definition broadcast_shapes :: "nat list \<Rightarrow> nat list \<Rightarrow> nat list option" where
  "broadcast_shapes as bs = map_option rev (broadcast_rev (rev as) (rev bs))"

definition bidx :: "nat list \<Rightarrow> nat list \<Rightarrow> nat list" where
  "bidx sh idx = map2 (\<lambda>n i. if n = 1 then 0 else i) sh (drop (length idx - length sh) idx)"

definition binop :: "('a \<Rightarrow> 'b \<Rightarrow> 'c) \<Rightarrow> 'a tensor \<Rightarrow> 'b tensor \<Rightarrow> error + 'c tensor" where
  "binop f a b =
     (case broadcast_shapes (shape a) (shape b) of
        None \<Rightarrow> Inl RuntimeError
      | Some sh \<Rightarrow>
          Inr (tensor_of_fun sh (\<lambda>idx. f (get a (bidx (shape a) idx)) (get b (bidx (shape b) idx)))))"

text \<open>
  A dimension argument may count from the end; out of range it raises IndexError. A
  tensor without axes takes the dimensions \<open>-1\<close> and \<open>0\<close>, as one with a single axis
  does.
\<close>

definition normalize_dim :: "nat \<Rightarrow> int \<Rightarrow> error + nat" where
  "normalize_dim r d =
     (let r' = max r 1 in
      if - int r' \<le> d \<and> d < int r' then Inr (nat (if d < 0 then d + int r' else d))
      else Inl IndexError)"

definition swap :: "nat \<Rightarrow> nat \<Rightarrow> 'a list \<Rightarrow> 'a list" where
  "swap a b xs = xs[a := xs ! b, b := xs ! a]"

definition transpose_dims :: "'a tensor \<Rightarrow> int \<Rightarrow> int \<Rightarrow> error + 'a tensor" where
  "transpose_dims t d0 d1 =
     bindE (normalize_dim (length (shape t)) d0) (\<lambda>a.
     bindE (normalize_dim (length (shape t)) d1) (\<lambda>b.
     Inr (tensor_of_fun (swap a b (shape t)) (\<lambda>idx. get t (swap a b idx)))))"

text \<open>
  \<^verbatim>\<open>t.unsqueeze(d)\<close> inserts an axis of size 1; it returns a new tensor and leaves
  \<open>t\<close> as it is.
\<close>

definition unsqueeze :: "'a tensor \<Rightarrow> int \<Rightarrow> error + 'a tensor" where
  "unsqueeze t d =
     bindE (normalize_dim (length (shape t) + 1) d) (\<lambda>a.
     Inr (t\<lparr>shape := take a (shape t) @ [1] @ drop a (shape t)\<rparr>))"

text \<open>
  \<^verbatim>\<open>t.view(dims)\<close> on a contiguous tensor: the same elements under a new shape. One
  entry may be \<open>-1\<close> and is inferred from the number of elements.
\<close>

definition view :: "'a tensor \<Rightarrow> int list \<Rightarrow> error + 'a tensor" where
  "view t dims =
     (let n = prod_list (shape t);
          known = prod_list (map nat (filter (\<lambda>d. d \<noteq> - 1) dims)) in
      if list_ex (\<lambda>d. d < - 1) dims \<or> 1 < count_list dims (- 1) then Inl RuntimeError
      else if count_list dims (- 1) = 0 then
        (if known = n then Inr (t\<lparr>shape := map nat dims\<rparr>) else Inl RuntimeError)
      else if known = 0 \<or> n mod known \<noteq> 0 then Inl RuntimeError
      else Inr (t\<lparr>shape := map (\<lambda>d. if d = - 1 then n div known else nat d) dims\<rparr>))"

text \<open>
  \<^verbatim>\<open>torch.matmul(a, b)\<close>: the matrix product over the last two axes, the leading
  axes broadcast. A vector operand gets an axis of size 1, which is removed from the
  result.
\<close>

definition matmul :: "real tensor \<Rightarrow> real tensor \<Rightarrow> error + real tensor" where
  "matmul a b =
     (let ra = length (shape a); rb = length (shape b) in
      if ra = 0 \<or> rb = 0 then Inl RuntimeError
      else
        let sa = (if ra = 1 then 1 # shape a else shape a);
            sb = (if rb = 1 then shape b @ [1] else shape b);
            a' = a\<lparr>shape := sa\<rparr>; b' = b\<lparr>shape := sb\<rparr>;
            ba = take (length sa - 2) sa; bb = take (length sb - 2) sb;
            m = sa ! (length sa - 2); n = sa ! (length sa - 1);
            n' = sb ! (length sb - 2); q = sb ! (length sb - 1) in
        if n \<noteq> n' then Inl RuntimeError
        else case broadcast_shapes ba bb of
          None \<Rightarrow> Inl RuntimeError
        | Some batch \<Rightarrow>
            let r = tensor_of_fun (batch @ [m, q])
                  (\<lambda>idx. let bi = take (length batch) idx;
                              i = idx ! length batch; j = idx ! (length batch + 1) in
                         sum_list (map (\<lambda>k. get a' (bidx ba bi @ [i, k]) * get b' (bidx bb bi @ [k, j]))
                                      [0..<n])) in
            Inr (r\<lparr>shape := batch @ (if ra = 1 then [] else [m]) @ (if rb = 1 then [] else [q])\<rparr>))"

definition div_scalar :: "real tensor \<Rightarrow> real \<Rightarrow> real tensor" where
  "div_scalar t c = map_tensor (\<lambda>v. v / c) t"

text \<open>
  \<^verbatim>\<open>x.masked_fill(m, v)\<close>: \<open>x\<close> and the boolean tensor \<open>m\<close> are broadcast
  together; the result holds \<open>v\<close> where \<open>m\<close> is true and \<open>x\<close> elsewhere.
\<close>

definition masked_fill :: "'a tensor \<Rightarrow> bool tensor \<Rightarrow> 'a \<Rightarrow> error + 'a tensor" where
  "masked_fill x m v = binop (\<lambda>xv mv. if mv then v else xv) x m"

text \<open>\<^verbatim>\<open>x.softmax(dim=-1)\<close>: the exponentials of each row of the last axis, normalised.\<close>

definition softmax_last :: "real tensor \<Rightarrow> real tensor" where
  "softmax_last t =
     (if shape t = [] then map_tensor (\<lambda>_. 1) t
      else tensor_of_fun (shape t)
        (\<lambda>idx. exp (get t idx) /
               sum_list (map (\<lambda>j. exp (get t (butlast idx @ [j]))) [0..<last (shape t)])))"

text \<open>
  Unpacking a tensor into two targets, \<^verbatim>\<open>x, y = t\<close>, iterates over its first axis:
  it succeeds only when that axis has exactly two entries.
\<close>

definition select0 :: "'a tensor \<Rightarrow> nat \<Rightarrow> 'a tensor" where
  "select0 t i =
     (let sh = tl (shape t) in
      \<lparr>shape = sh, data = take (prod_list sh) (drop (i * prod_list sh) (data t))\<rparr>)"

definition unpack2 :: "'a tensor \<Rightarrow> error + ('a tensor \<times> 'a tensor)" where
  "unpack2 t =
     (case shape t of
        [] \<Rightarrow> Inl TypeError
      | n # ns \<Rightarrow> if n = 2 then Inr (select0 t 0, select0 t 1) else Inl ValueError)"

section \<open>The notebook's global names\<close>

text \<open>
  A name that a function body reads and never assigns is looked up among the globals
  when the statement runs; an unbound name raises NameError. \<open>notebook_globals\<close>
  holds every name the notebook's cells bind at top level: its imports, its two
  hyperparameters, its classes and functions, and the scratch variable \<open>a\<close>. None of
  the names looked up below (\<open>numbers\<close>, \<open>eps\<close>, \<open>encoder_stack\<close>,
  \<open>decoder_stack\<close>) is a Python builtin.
\<close>

datatype pyval =
    Num real
  | Layers "(real tensor \<Rightarrow> error + real tensor) list"
  | Opaque

type_synonym globals = "string \<rightharpoonup> pyval"

definition load_global :: "globals \<Rightarrow> string \<Rightarrow> error + pyval" where
  "load_global G name = (case G name of None \<Rightarrow> Inl (NameError name) | Some v \<Rightarrow> Inr v)"

definition notebook_globals :: globals where
  "notebook_globals = map_of
     [(''torch'', Opaque), (''nn'', Opaque), (''math'', Opaque), (''copy'', Opaque),
      (''time'', Opaque), (''pd'', Opaque), (''alt'', Opaque),
      (''D_MODEL'', Num 16), (''N'', Num 6),
      (''EncoderDecoder'', Opaque), (''Generator'', Opaque), (''clone'', Opaque),
      (''Encoder'', Opaque), (''LayerNorm'', Opaque), (''Sublayer'', Opaque),
      (''EncoderLayer'', Opaque), (''Decoder'', Opaque), (''DecoderLayer'', Opaque),
      (''forward_mask'', Opaque), (''show_sample_mask'', Opaque), (''attention'', Opaque),
      (''MultiHeadAttention'', Opaque), (''a'', Opaque)]"

text \<open>
  \<^verbatim>\<open>
  def clone(module_to_clone, num_of_clones):
      assert isinstance(num_of_clones, numbers.Integral)
      return nn.ModuleList([copy.deepcopy(module_to_clone) for _ in range(num_of_clones)])
  \<close>
  The count is an integer, so the assertion holds once \<open>numbers\<close> resolves; a deep
  copy of a value is the value.
\<close>

definition clone :: "globals \<Rightarrow> 'm \<Rightarrow> int \<Rightarrow> error + 'm list" where
  "clone G module_to_clone num_of_clones =
     bindE (load_global G ''numbers'') (\<lambda>_.
     Inr (replicate (nat num_of_clones) module_to_clone))"

section \<open>Dropout and Linear\<close>

text \<open>
  \<^verbatim>\<open>nn.Dropout(p)\<close> refuses a probability outside \<open>[0, 1]\<close>. In training mode its
  forward zeroes each element with probability \<open>p\<close> and scales the kept ones by
  \<open>1 / (1 - p)\<close>. The random generator's draw is the argument \<open>keep\<close>: element \<open>i\<close>
  (in row-major order) is kept iff \<open>keep i\<close>. With \<open>p = 0\<close> nothing is dropped, with
  \<open>p = 1\<close> everything.
\<close>

record Dropout =
  prob :: real
  training :: bool

definition nn_Dropout :: "real \<Rightarrow> error + Dropout" where
  "nn_Dropout p = (if p < 0 \<or> 1 < p then Inl ValueError
                   else Inr \<lparr>prob = p, training = True\<rparr>)"

definition Dropout_forward :: "Dropout \<Rightarrow> (nat \<Rightarrow> bool) \<Rightarrow> real tensor \<Rightarrow> real tensor" where
  "Dropout_forward d keep x =
     (if prob d = 0 \<or> \<not> training d then x
      else x\<lparr>data := map2 (\<lambda>i v. if prob d < 1 \<and> keep i then v / (1 - prob d) else 0)
                        [0..<length (data x)] (data x)\<rparr>)"

text \<open>
  \<^verbatim>\<open>nn.Linear(in_features, out_features)\<close> holds a weight of shape \<open>[out, in]\<close> and a
  bias of shape \<open>[out]\<close>, created from their sizes as \<open>torch.ones\<close> creates its
  tensor; \<open>init\<close> gives the values the library's initialiser draws. Its forward is
  \<open>x W\<^sup>T + b\<close> over the last axis.
\<close>

record Linear =
  weight :: "real tensor"
  bias :: "real tensor"

definition nn_Linear :: "int \<Rightarrow> int \<Rightarrow> (nat list \<Rightarrow> real) \<Rightarrow> error + Linear" where
  "nn_Linear in_features out_features init =
     bindE (check_size [out_features, in_features]) (\<lambda>_.
     Inr \<lparr>weight = tensor_of_fun [nat out_features, nat in_features] init,
          bias = tensor_of_fun [nat out_features] init\<rparr>)"

definition Linear_forward :: "Linear \<Rightarrow> real tensor \<Rightarrow> error + real tensor" where
  "Linear_forward l x =
     (let n_in = shape (weight l) ! 1; n_out = shape (weight l) ! 0 in
      if shape x = [] \<or> last (shape x) \<noteq> n_in then Inl RuntimeError
      else Inr (tensor_of_fun (butlast (shape x) @ [n_out])
             (\<lambda>idx. sum_list (map (\<lambda>k. get x (butlast idx @ [k]) * get (weight l) [last idx, k])
                                  [0..<n_in])
                    + get (bias l) [last idx])))"

section \<open>LayerNorm and the Sublayer wrapper\<close>

text \<open>
  \<^verbatim>\<open>
  class LayerNorm(nn.Module):
      def __init__(self, features, eps=1e-6):
          super().__init__()
          self.eps = eps
          self.gamma = nn.Parameter(torch.ones(features))
          self.beta = nn.Parameter(torch.zeros(features))
      def forward(self, x):
          std = x.std(dim=-1, keepdim=True)
          mean = x.mean(dim=-1, keepdim=True)
          return self.gamma * (x-mean)/(std + eps) + self.beta
  \<close>
  The body of \<open>forward\<close> reads the name \<open>eps\<close>, not the attribute \<open>self.eps\<close>.
  \<open>x.std\<close> divides by \<open>n - 1\<close> (torch's default); on a row of one element torch
  gives nan where the reals give 0.
\<close>

record LayerNorm =
  eps :: real
  gamma :: "real tensor"
  beta :: "real tensor"

definition zeros :: "int list \<Rightarrow> error + real tensor" where
  "zeros sh = bindE (check_size sh) (\<lambda>s. Inr (tensor_of_fun s (\<lambda>_. 0)))"

definition LayerNorm_init :: "int \<Rightarrow> real option \<Rightarrow> error + LayerNorm" where
  "LayerNorm_init features eps_arg =
     bindE (ones [features]) (\<lambda>g.
     bindE (zeros [features]) (\<lambda>b.
     Inr \<lparr>eps = (case eps_arg of None \<Rightarrow> 1 / 10 ^ 6 | Some e \<Rightarrow> e), gamma = g, beta = b\<rparr>))"

definition reduce_last :: "(real list \<Rightarrow> real) \<Rightarrow> real tensor \<Rightarrow> real tensor" where
  "reduce_last f t =
     (if shape t = [] then map_tensor (\<lambda>v. f [v]) t
      else tensor_of_fun (butlast (shape t) @ [1])
             (\<lambda>idx. f (map (\<lambda>j. get t (butlast idx @ [j])) [0..<last (shape t)])))"

definition mean_list :: "real list \<Rightarrow> real" where
  "mean_list xs = sum_list xs / real (length xs)"

definition std_list :: "real list \<Rightarrow> real" where
  "std_list xs = sqrt (sum_list (map (\<lambda>v. (v - mean_list xs)\<^sup>2) xs) / (real (length xs) - 1))"

definition LayerNorm_forward :: "globals \<Rightarrow> LayerNorm \<Rightarrow> real tensor \<Rightarrow> error + real tensor" where
  "LayerNorm_forward G self x =
     (let std = reduce_last std_list x;
          mean = reduce_last mean_list x in
      bindE (binop (-) x mean) (\<lambda>centred.
      bindE (binop (*) (gamma self) centred) (\<lambda>num.
      bindE (load_global G ''eps'') (\<lambda>e.
      bindE (case e of Num r \<Rightarrow> Inr (map_tensor (\<lambda>v. v + r) std) | _ \<Rightarrow> Inl TypeError) (\<lambda>den.
      bindE (binop (/) num den) (\<lambda>quot.
      binop (+) quot (beta self)))))))"

text \<open>
  \<^verbatim>\<open>
  class Sublayer(nn.Module):
      def __init__(self, size, dropout):
          super().__init__()
          self.layernorm = LayerNorm(size)
          self.dropout = nn.Dropout(dropout)
      def forward(self, x, sublayer_protagonist):
          return x + self.dropout(sublayer_protagonist(self.norm(x)))
  \<close>
  A module keeps its submodules by attribute name; reading an attribute that was never
  set raises AttributeError. The constructor sets \<open>layernorm\<close> and \<open>dropout\<close>,
  and \<open>forward\<close> reads \<open>dropout\<close> and \<open>norm\<close>.
\<close>

datatype module = MLayerNorm LayerNorm | MDropout Dropout

type_synonym Sublayer = "(string \<times> module) list"

definition Sublayer_init :: "int \<Rightarrow> real \<Rightarrow> error + Sublayer" where
  "Sublayer_init sz dropout =
     bindE (LayerNorm_init sz None) (\<lambda>layernorm.
     bindE (nn_Dropout dropout) (\<lambda>d.
     Inr [(''layernorm'', MLayerNorm layernorm), (''dropout'', MDropout d)]))"

definition getattr :: "(string \<times> module) list \<Rightarrow> string \<Rightarrow> error + module" where
  "getattr obj name = (case map_of obj name of None \<Rightarrow> Inl (AttributeError name) | Some m \<Rightarrow> Inr m)"

definition call_module :: "globals \<Rightarrow> module \<Rightarrow> (nat \<Rightarrow> bool) \<Rightarrow> real tensor \<Rightarrow> error + real tensor" where
  "call_module G m rng x =
     (case m of MLayerNorm layernorm \<Rightarrow> LayerNorm_forward G layernorm x
              | MDropout d \<Rightarrow> Inr (Dropout_forward d rng x))"

definition Sublayer_forward ::
  "globals \<Rightarrow> Sublayer \<Rightarrow> (nat \<Rightarrow> bool) \<Rightarrow> real tensor \<Rightarrow> (real tensor \<Rightarrow> error + real tensor)
     \<Rightarrow> error + real tensor" where
  "Sublayer_forward G self rng x sublayer_protagonist =
     bindE (getattr self ''dropout'') (\<lambda>dropout.
     bindE (getattr self ''norm'') (\<lambda>norm.
     bindE (call_module G norm rng x) (\<lambda>normed.
     bindE (sublayer_protagonist normed) (\<lambda>y.
     bindE (call_module G dropout rng y) (\<lambda>dropped.
     binop (+) x dropped)))))"

section \<open>Scaled dot-product attention\<close>

text \<open>
  \<^verbatim>\<open>
  def attention(query, key, value, mask=None, dropout: nn.Module=None):
      d_k = query.shape[-1]
      x = torch.matmul(query,key.transpose(-2,-1))/math.sqrt(d_k)
      if mask is not None:
          x = x.masked_fill(mask==0, 1e-9)
      x = x.softmax(dim=-1)
      if dropout is not None:
          x = dropout(x)
      scaled_attention = torch.matmul(x,value)
      return scaled_attention
  \<close>
  \<open>attention_scores\<close> is the value of \<open>x\<close> after the second statement,
  \<open>attention_weights\<close> its value before the last product, and \<open>attention\<close> the
  function: it returns one tensor. The mask (\<open>msk\<close>) is a boolean tensor, so
  \<open>mask==0\<close> is its negation.
\<close>

definition attention_scores :: "real tensor \<Rightarrow> real tensor \<Rightarrow> error + real tensor" where
  "attention_scores query key =
     bindE (if shape query = [] then Inl IndexError else Inr (last (shape query))) (\<lambda>d_k.
     bindE (transpose_dims key (- 2) (- 1)) (\<lambda>kt.
     bindE (matmul query kt) (\<lambda>qk.
     Inr (div_scalar qk (sqrt (real d_k))))))"

definition attention_weights ::
  "real tensor \<Rightarrow> real tensor \<Rightarrow> bool tensor option \<Rightarrow> Dropout option \<Rightarrow> (nat \<Rightarrow> bool)
     \<Rightarrow> error + real tensor" where
  "attention_weights query key msk dropout rng =
     bindE (attention_scores query key) (\<lambda>x.
     bindE (case msk of None \<Rightarrow> Inr x
            | Some m \<Rightarrow> masked_fill x (eq_scalar m False) (1 / 10 ^ 9)) (\<lambda>x.
     let x = softmax_last x in
     Inr (case dropout of None \<Rightarrow> x | Some d \<Rightarrow> Dropout_forward d rng x)))"

definition attention ::
  "real tensor \<Rightarrow> real tensor \<Rightarrow> real tensor \<Rightarrow> bool tensor option \<Rightarrow> Dropout option
     \<Rightarrow> (nat \<Rightarrow> bool) \<Rightarrow> error + real tensor" where
  "attention query key val msk dropout rng =
     bindE (attention_weights query key msk dropout rng) (\<lambda>x.
     matmul x val)"

section \<open>Multi-head attention\<close>

text \<open>
  \<^verbatim>\<open>
  class MultiHeadAttention(nn.Module):
      def __init__(self, h, d_model, dropout=0.1):
          super().__init__()
          assert d_model%h == 0
          self.d_k = d_model // h
          self.h = h
          self.linears = clone(nn.Linear(d_model, d_model), 4)
          self.attn = None
          self.dropout = nn.Dropout(p=dropout)
  \<close>
  Python's \<open>%\<close> and \<open>//\<close> on integers round towards minus infinity, as \<open>mod\<close> and
  \<open>div\<close> on \<open>int\<close> do; a zero divisor raises ZeroDivisionError.
\<close>

record MultiHeadAttention =
  d_k :: int
  h :: int
  linears :: "Linear list"
  attn :: "real tensor option"
  mha_dropout :: Dropout

definition MultiHeadAttention_init ::
  "globals \<Rightarrow> int \<Rightarrow> int \<Rightarrow> real \<Rightarrow> (nat list \<Rightarrow> real) \<Rightarrow> error + MultiHeadAttention" where
  "MultiHeadAttention_init G h_arg d_model dropout init =
     (if h_arg = 0 then Inl ZeroDivisionError
      else if d_model mod h_arg \<noteq> 0 then Inl AssertionError
      else
        bindE (nn_Linear d_model d_model init) (\<lambda>lin.
        bindE (clone G lin 4) (\<lambda>ls.
        bindE (nn_Dropout dropout) (\<lambda>d.
        Inr \<lparr>d_k = d_model div h_arg, h = h_arg, linears = ls, attn = None, mha_dropout = d\<rparr>))))"

text \<open>
  \<^verbatim>\<open>
      def forward(self, query, key, value, mask=None):
          if mask is not None:
              mask.unsqueeze(1)    # to account for batching
          num_batches = query.shape[0]
          query, key, value = [
              lin(x).view(num_batches, -1, self.h, self.d_k).transpose(1,2)
              for lin, x in zip(self.linears, (query, key, value))
                              ]
          x, self.attn = attention(query, key, value, mask, self.dropout)
          x = (
              x.transpose(1,2)
              .contiguous()
              .view(num_batches, -1, self.h * self.d_k)
          )
          return self.linears[-1](x)
  \<close>
  The result of \<open>mask.unsqueeze(1)\<close> is dropped. \<open>attention\<close> returns one tensor,
  which the fourth statement unpacks into two targets. The forward returns its result,
  or the exception, together with the module, whose \<open>attn\<close> it may have set.
\<close>

fun mapE :: "('a \<Rightarrow> error + 'b) \<Rightarrow> 'a list \<Rightarrow> error + 'b list" where
  "mapE f [] = Inr []"
| "mapE f (x # xs) = bindE (f x) (\<lambda>y. bindE (mapE f xs) (\<lambda>ys. Inr (y # ys)))"

definition split_heads ::
  "MultiHeadAttention \<Rightarrow> nat \<Rightarrow> Linear \<times> real tensor \<Rightarrow> error + real tensor" where
  "split_heads self num_batches = (\<lambda>(lin, x).
     bindE (Linear_forward lin x) (\<lambda>y.
     bindE (view y [int num_batches, - 1, h self, d_k self]) (\<lambda>v.
     transpose_dims v 1 2)))"

definition MultiHeadAttention_attend ::
  "MultiHeadAttention \<Rightarrow> real tensor \<Rightarrow> real tensor \<Rightarrow> real tensor \<Rightarrow> bool tensor option
     \<Rightarrow> (nat \<Rightarrow> bool) \<Rightarrow> error + (nat \<times> real tensor \<times> real tensor)" where
  "MultiHeadAttention_attend self query key val msk rng =
     bindE (case msk of None \<Rightarrow> Inr () | Some m \<Rightarrow> bindE (unsqueeze m 1) (\<lambda>_. Inr ())) (\<lambda>_.
     bindE (case shape query of [] \<Rightarrow> Inl IndexError | n # _ \<Rightarrow> Inr n) (\<lambda>num_batches.
     bindE (mapE (split_heads self num_batches) (zip (linears self) [query, key, val])) (\<lambda>qkv.
     bindE (case qkv of [q, k, v] \<Rightarrow> Inr (q, k, v) | _ \<Rightarrow> Inl ValueError) (\<lambda>(q, k, v).
     bindE (attention q k v msk (Some (mha_dropout self)) rng) (\<lambda>res.
     bindE (unpack2 res) (\<lambda>(x, a).
     Inr (num_batches, x, a)))))))"

definition MultiHeadAttention_forward ::
  "MultiHeadAttention \<Rightarrow> real tensor \<Rightarrow> real tensor \<Rightarrow> real tensor \<Rightarrow> bool tensor option
     \<Rightarrow> (nat \<Rightarrow> bool) \<Rightarrow> (error + real tensor) \<times> MultiHeadAttention" where
  "MultiHeadAttention_forward self query key val msk rng =
     (case MultiHeadAttention_attend self query key val msk rng of
        Inl e \<Rightarrow> (Inl e, self)
      | Inr (num_batches, x, a) \<Rightarrow>
          (bindE (transpose_dims x 1 2) (\<lambda>xt.
           bindE (view xt [int num_batches, - 1, h self * d_k self]) (\<lambda>xv.
           case linears self of [] \<Rightarrow> Inl IndexError
           | _ \<Rightarrow> Linear_forward (last (linears self)) xv)),
           self\<lparr>attn := Some a\<rparr>))"

section \<open>The encoder and decoder stacks\<close>

text \<open>
  \<^verbatim>\<open>
  class Encoder(nn.Module):
      def __init__(self, encoder_layer, N):
          super().__init__()
          self.encoder_stack = clone(encoder_layer, N)
      def forward(self, x):
          for encoder in encoder_stack:
              x = encoder(x)
          return x
  \<close>
  \<open>Decoder\<close> is the same text with \<open>decoder\<close> for \<open>encoder\<close>. A layer is the
  function its call computes. The loop of \<open>forward\<close> runs over the name
  \<open>encoder_stack\<close>, not over the attribute \<open>self.encoder_stack\<close>.
\<close>

type_synonym layer = "real tensor \<Rightarrow> error + real tensor"

record Encoder =
  encoder_stack :: "layer list"

record Decoder =
  decoder_stack :: "layer list"

fun run_layers :: "layer list \<Rightarrow> real tensor \<Rightarrow> error + real tensor" where
  "run_layers [] x = Inr x"
| "run_layers (l # ls) x = bindE (l x) (run_layers ls)"

definition Encoder_init :: "globals \<Rightarrow> layer \<Rightarrow> int \<Rightarrow> error + Encoder" where
  "Encoder_init G encoder_layer N =
     bindE (clone G encoder_layer N) (\<lambda>ls. Inr \<lparr>encoder_stack = ls\<rparr>)"

definition Encoder_forward :: "globals \<Rightarrow> Encoder \<Rightarrow> real tensor \<Rightarrow> error + real tensor" where
  "Encoder_forward G self x =
     bindE (load_global G ''encoder_stack'') (\<lambda>stack.
     case stack of Layers ls \<Rightarrow> run_layers ls x | _ \<Rightarrow> Inl TypeError)"

definition Decoder_init :: "globals \<Rightarrow> layer \<Rightarrow> int \<Rightarrow> error + Decoder" where
  "Decoder_init G decoder_layer N =
     bindE (clone G decoder_layer N) (\<lambda>ls. Inr \<lparr>decoder_stack = ls\<rparr>)"

definition Decoder_forward :: "globals \<Rightarrow> Decoder \<Rightarrow> real tensor \<Rightarrow> error + real tensor" where
  "Decoder_forward G self x =
     bindE (load_global G ''decoder_stack'') (\<lambda>stack.
     case stack of Layers ls \<Rightarrow> run_layers ls x | _ \<Rightarrow> Inl TypeError)"

section \<open>Concrete inputs\<close>

text \<open>
  One query row against two keys, the second key masked out; all scores are 0.
\<close>

definition q_row :: "real tensor" where
  "q_row = \<lparr>shape = [1, 1], data = [0]\<rparr>"

definition k_two :: "real tensor" where
  "k_two = \<lparr>shape = [2, 1], data = [0, 0]\<rparr>"

definition v_two :: "real tensor" where
  "v_two = \<lparr>shape = [2, 1], data = [3, 5]\<rparr>"

definition m_second_hidden :: "bool tensor" where
  "m_second_hidden = \<lparr>shape = [1, 2], data = [True, False]\<rparr>"

text \<open>
  The module that \<^verbatim>\<open>MultiHeadAttention(h=1, d_model=1, dropout=0.0)\<close> sets up when
  the initialiser draws weight 1 and bias 0, and two inputs of width 1: one sequence of
  length 1, and a batch of two sequences of length 2.
\<close>

definition init_unit :: "nat list \<Rightarrow> real" where
  "init_unit idx = (if length idx = 2 then 1 else 0)"

definition lin_unit :: Linear where
  "lin_unit = \<lparr>weight = \<lparr>shape = [1, 1], data = [1]\<rparr>, bias = \<lparr>shape = [1], data = [0]\<rparr>\<rparr>"

definition mha_unit :: MultiHeadAttention where
  "mha_unit = \<lparr>d_k = 1, h = 1, linears = [lin_unit, lin_unit, lin_unit, lin_unit],
                attn = None, mha_dropout = \<lparr>prob = 0, training = True\<rparr>\<rparr>"

definition x_single :: "real tensor" where
  "x_single = \<lparr>shape = [1, 1, 1], data = [1]\<rparr>"

definition x_pair :: "real tensor" where
  "x_pair = \<lparr>shape = [2, 2, 1], data = [1, 1, 1, 1]\<rparr>"

section \<open>Index arithmetic\<close>

lemma valid_index_Nil [simp]: "valid_index [] idx = (idx = [])"
  by (simp add: valid_index_def)

lemma valid_index_Cons:
  "valid_index (n # ns) idx = (\<exists>i is. idx = i # is \<and> i < n \<and> valid_index ns is)"
  by (cases idx) (auto simp: valid_index_def)

lemma valid_index_length: "valid_index sh idx \<Longrightarrow> length idx = length sh"
  by (simp add: valid_index_def list_all2_lengthD)

lemma valid_index_nth: "valid_index sh idx \<Longrightarrow> k < length sh \<Longrightarrow> idx ! k < sh ! k"
  by (simp add: valid_index_def list_all2_nthD2)

lemma ravel_less: "valid_index sh idx \<Longrightarrow> ravel sh idx < prod_list sh"
proof (induction sh arbitrary: idx)
  case Nil
  then show ?case by simp
next
  case (Cons n ns)
  then obtain i js where idx: "idx = i # js" and i: "i < n" and js: "valid_index ns js"
    by (auto simp: valid_index_Cons)
  have "ravel ns js < prod_list ns" using Cons.IH [OF js] .
  then have "i * prod_list ns + ravel ns js < Suc i * prod_list ns" by simp
  also have "\<dots> \<le> n * prod_list ns" using i by (intro mult_le_mono1) simp
  finally show ?case by (simp add: idx)
qed

lemma unravel_ravel: "valid_index sh idx \<Longrightarrow> unravel sh (ravel sh idx) = idx"
proof (induction sh arbitrary: idx)
  case Nil
  then show ?case by simp
next
  case (Cons n ns)
  then obtain i js where idx: "idx = i # js" and i: "i < n" and js: "valid_index ns js"
    by (auto simp: valid_index_Cons)
  have lt: "ravel ns js < prod_list ns" using ravel_less [OF js] .
  show ?case using Cons.IH [OF js] lt by (simp add: idx)
qed

lemma get_tensor_of_fun: "valid_index sh idx \<Longrightarrow> get (tensor_of_fun sh f) idx = f idx"
  using ravel_less [of sh idx] by (simp add: get_def tensor_of_fun_def unravel_ravel)

lemma shape_tensor_of_fun [simp]: "shape (tensor_of_fun sh f) = sh"
  by (simp add: tensor_of_fun_def)

lemma get_map_tensor:
  "well_formed t \<Longrightarrow> valid_index (shape t) idx \<Longrightarrow> get (map_tensor f t) idx = f (get t idx)"
  using ravel_less [of "shape t" idx] by (simp add: get_def map_tensor_def well_formed_def)

lemma shape_map_tensor [simp]: "shape (map_tensor f t) = shape t"
  by (simp add: map_tensor_def)

lemma well_formed_tensor_of_fun [simp]: "well_formed (tensor_of_fun sh f)"
  by (simp add: well_formed_def tensor_of_fun_def)

lemma well_formed_map_tensor [simp]: "well_formed (map_tensor f t) = well_formed t"
  by (simp add: well_formed_def map_tensor_def)

lemma bindE_simps [simp]: "bindE (Inl e) f = Inl e" "bindE (Inr x) f = f x"
  by (simp_all add: bindE_def)

lemma valid_index_append:
  "valid_index as a \<Longrightarrow> valid_index bs b \<Longrightarrow> valid_index (as @ bs) (a @ b)"
  by (simp add: valid_index_def list_all2_appendI)

lemma broadcast_rev_same: "broadcast_rev xs xs = Some xs"
  by (induction xs) simp_all

lemma broadcast_shapes_same: "broadcast_shapes xs xs = Some xs"
  by (simp add: broadcast_shapes_def broadcast_rev_same)

lemma bidx_valid: "valid_index sh idx \<Longrightarrow> bidx sh idx = idx"
proof (induction sh arbitrary: idx)
  case Nil
  then show ?case by (simp add: bidx_def)
next
  case (Cons n ns)
  then obtain i js where idx: "idx = i # js" and i: "i < n" and js: "valid_index ns js"
    by (auto simp: valid_index_Cons)
  have "length js = length ns" using js by (rule valid_index_length)
  then show ?case using Cons.IH [OF js] i by (auto simp: bidx_def idx)
qed

lemma swap_last_two: "length b = r \<Longrightarrow> swap r (Suc r) (b @ [x, y]) = b @ [y, x]"
  by (simp add: swap_def nth_append list_update_append)

lemma shape_update_same: "shape t = sh \<Longrightarrow> t\<lparr>shape := sh\<rparr> = t"
  by auto

lemma nat_one_plus: "nat (1 + int n) = Suc n"
  by simp

lemma transpose_last_two:
  assumes "shape k = bs @ [n, d]"
  shows "transpose_dims k (- 2) (- 1) =
           Inr (tensor_of_fun (bs @ [d, n]) (\<lambda>idx. get k (swap (length bs) (Suc (length bs)) idx)))"
  by (simp add: transpose_dims_def normalize_dim_def assms swap_last_two nat_one_plus max_def)

section \<open>Evaluation on concrete tensors\<close>

lemma upt_small:
  "[0..<1] = [0]" "[0..<2] = [0, 1]" "[0..<4] = [0, 1, 2, 3]" "[0..<8] = [0, 1, 2, 3, 4, 5, 6, 7]"
  by (simp_all add: upt_rec)

lemmas ev = upt_small tensor_of_fun_def get_def bidx_def broadcast_shapes_def Let_def
  map_tensor_def swap_def normalize_dim_def

section \<open>Unbound names\<close>

lemma notebook_unbound:
  "notebook_globals ''eps'' = None" "notebook_globals ''numbers'' = None"
  "notebook_globals ''encoder_stack'' = None" "notebook_globals ''decoder_stack'' = None"
  by (simp_all add: notebook_globals_def)

lemma load_unbound:
  "load_global notebook_globals ''eps'' = Inl (NameError ''eps'')"
  "load_global notebook_globals ''numbers'' = Inl (NameError ''numbers'')"
  "load_global notebook_globals ''encoder_stack'' = Inl (NameError ''encoder_stack'')"
  "load_global notebook_globals ''decoder_stack'' = Inl (NameError ''decoder_stack'')"
  by (simp_all add: load_global_def notebook_unbound)

section \<open>Attention: masking, scaling, results\<close>

text \<open>
  Claim C1. The claim: at every masked-out position the attention weight is within
  \<open>10\<^sup>-\<^sup>5\<close> of 0, because masked scores are set to a very large negative number.
  The code fills masked scores with \<open>+10\<^sup>-\<^sup>9\<close>. For one query and two keys with all
  scores 0 and the second key masked out, the weight of the masked key is at least
  \<open>1/2\<close>; the two weights of the row do sum to 1.
\<close>

theorem masked_weight_not_suppressed:
  "\<exists>w. attention_weights q_row k_two (Some m_second_hidden) None rng = Inr w \<and>
       shape w = [1, 2] \<and> get m_second_hidden [0, 1] = False \<and> 1 / 2 \<le> get w [0, 1] \<and>
       get w [0, 0] + get w [0, 1] = 1"
proof -
  define z :: "real tensor" where "z = \<lparr>shape = [1, 2], data = [0, 0]\<rparr>"
  define f :: "real tensor" where "f = \<lparr>shape = [1, 2], data = [0, 1 / 10 ^ 9]\<rparr>"
  define w :: "real tensor" where "w = \<lparr>shape = [1, 2],
    data = [1 / (1 + exp (1 / 10 ^ 9)), exp (1 / 10 ^ 9) / (1 + exp (1 / 10 ^ 9))]\<rparr>"
  have t1: "transpose_dims k_two (- 2) (- 1) = Inr z"
    by (simp add: transpose_dims_def k_two_def z_def ev)
  have t2: "matmul q_row z = Inr z"
    by (simp add: matmul_def q_row_def z_def ev)
  have sq: "shape q_row \<noteq> []" "last (shape q_row) = 1"
    by (simp_all add: q_row_def)
  have t3: "attention_scores q_row k_two = Inr z"
    by (simp add: attention_scores_def sq t1 t2 div_scalar_def) (simp add: z_def map_tensor_def)
  have t4: "masked_fill z (eq_scalar m_second_hidden False) (1 / 10 ^ 9) = Inr f"
    by (simp add: masked_fill_def binop_def eq_scalar_def m_second_hidden_def z_def f_def ev)
  have t5: "softmax_last f = w"
    by (simp add: softmax_last_def f_def w_def ev)
  have t6: "attention_weights q_row k_two (Some m_second_hidden) None rng = Inr w"
    unfolding attention_weights_def t3 bindE_simps option.case t4 Let_def t5 ..
  have half: "1 / 2 \<le> e / (1 + e)" if "1 \<le> e" for e :: real
    using that by (simp add: field_simps)
  have "1 / 2 \<le> exp (1 / 10 ^ 9) / (1 + exp (1 / 10 ^ 9) :: real)"
    by (rule half) simp
  then have gw: "1 / 2 \<le> get w [0, 1]"
    by (simp add: get_def w_def)
  have gm: "get m_second_hidden [0, 1] = False"
    by (simp add: get_def m_second_hidden_def)
  have sw: "shape w = [1, 2]"
    by (simp add: w_def)
  have "0 < 1 + exp (1 / 10 ^ 9 :: real)"
    by (simp add: add_pos_pos)
  then have "1 / (1 + exp (1 / 10 ^ 9)) + exp (1 / 10 ^ 9) / (1 + exp (1 / 10 ^ 9) :: real) = 1"
    by (simp add: field_simps)
  then have su: "get w [0, 0] + get w [0, 1] = 1"
    by (simp add: get_def w_def)
  show ?thesis using t6 sw gm gw su by blast
qed

text \<open>
  What \<open>attention\<close> does return, without a mask: one tensor, of the shape of the
  output.
\<close>

lemma matmul_shape:
  assumes a: "shape a = bs @ [m, n]" and b: "shape b = bs @ [n, p]"
  shows "\<exists>r. matmul a b = Inr r \<and> shape r = bs @ [m, p]"
  by (simp add: matmul_def a b Let_def nth_append broadcast_shapes_same)

lemma shape_softmax_last [simp]: "shape (softmax_last t) = shape t"
  by (simp add: softmax_last_def)

lemma shape_Dropout_forward [simp]: "shape (Dropout_forward d rng x) = shape x"
  by (simp add: Dropout_forward_def)

lemma attention_output_shape:
  assumes q: "shape q = bs @ [m, d]" and k: "shape k = bs @ [n, d]" and v: "shape v = bs @ [n, dv]"
  shows "\<exists>out. attention q k v None dropout rng = Inr out \<and> shape out = bs @ [m, dv]"
proof -
  obtain kt where kt: "transpose_dims k (- 2) (- 1) = Inr kt" "shape kt = bs @ [d, n]"
    using transpose_last_two [OF k] by simp
  obtain qk where qk: "matmul q kt = Inr qk" "shape qk = bs @ [m, n]"
    using matmul_shape [OF q kt(2)] by blast
  define w where "w = (case dropout of None \<Rightarrow> softmax_last (div_scalar qk (sqrt (real d)))
      | Some dr \<Rightarrow> Dropout_forward dr rng (softmax_last (div_scalar qk (sqrt (real d)))))"
  have "attention_scores q k = Inr (div_scalar qk (sqrt (real d)))"
    by (simp add: attention_scores_def q kt qk)
  then have aw: "attention_weights q k None dropout rng = Inr w"
    by (simp add: attention_weights_def w_def Let_def)
  have sw: "shape w = bs @ [m, n]"
    by (simp add: w_def div_scalar_def qk split: option.splits)
  obtain out where "matmul w v = Inr out" "shape out = bs @ [m, dv]"
    using matmul_shape [OF sw v] by blast
  then show ?thesis
    by (simp add: attention_def aw)
qed

text \<open>
  Claim C5. The claim: \<open>attention\<close> produces two results, the output tensor and the
  attention-weight tensor. The code returns the single tensor \<open>scaled_attention\<close>.
  On one query row and two keys it returns the \<open>1 \<times> 1\<close> output and nothing else, and
  unpacking that result into two targets, as the caller in \<open>MultiHeadAttention\<close>
  does, raises ValueError.
\<close>

theorem attention_returns_one_tensor:
  "attention q_row k_two v_two None None rng = Inr \<lparr>shape = [1, 1], data = [4]\<rparr> \<and>
   unpack2 \<lparr>shape = [1, 1], data = [4 :: real]\<rparr> = Inl ValueError"
proof -
  define z :: "real tensor" where "z = \<lparr>shape = [1, 2], data = [0, 0]\<rparr>"
  define w :: "real tensor" where "w = \<lparr>shape = [1, 2], data = [1 / 2, 1 / 2]\<rparr>"
  have t1: "transpose_dims k_two (- 2) (- 1) = Inr z"
    by (simp add: transpose_dims_def k_two_def z_def ev)
  have t2: "matmul q_row z = Inr z"
    by (simp add: matmul_def q_row_def z_def ev)
  have sq: "shape q_row \<noteq> []" "last (shape q_row) = 1"
    by (simp_all add: q_row_def)
  have t3: "attention_scores q_row k_two = Inr z"
    by (simp add: attention_scores_def sq t1 t2 div_scalar_def) (simp add: z_def map_tensor_def)
  have t5: "softmax_last z = w"
    by (simp add: softmax_last_def z_def w_def ev)
  have t6: "attention_weights q_row k_two None None rng = Inr w"
    by (simp add: attention_weights_def t3 t5)
  have t7: "matmul w v_two = Inr \<lparr>shape = [1, 1], data = [4]\<rparr>"
    by (simp add: matmul_def w_def v_two_def ev)
  show ?thesis
    by (simp add: attention_def t6 t7) (simp add: unpack2_def)
qed

text \<open>
  The scaled scores entry by entry, when query and key have the same leading axes: for a
  query of shape \<open>[..., m, d]\<close> and a key of shape \<open>[..., n, d]\<close> with \<open>d \<ge> 1\<close>,
  the scores have shape \<open>[..., m, n]\<close> and the score of query row \<open>i\<close> and key row
  \<open>j\<close> is their dot product divided by \<open>\<surd>d\<close>.
\<close>

lemma attention_scores_dot_products:
  assumes q: "shape q = bs @ [m, d]" and k: "shape k = bs @ [n, d]" and d: "1 \<le> d"
  shows "\<exists>s. attention_scores q k = Inr s \<and> shape s = bs @ [m, n] \<and> 0 < sqrt (real d) \<and>
           (\<forall>b i j. valid_index bs b \<and> i < m \<and> j < n \<longrightarrow>
              get s (b @ [i, j]) =
                (\<Sum>l\<leftarrow>[0..<d]. get q (b @ [i, l]) * get k (b @ [j, l])) / sqrt (real d))"
proof -
  define kt where
    "kt = tensor_of_fun (bs @ [d, n]) (\<lambda>idx. get k (swap (length bs) (Suc (length bs)) idx))"
  define qk where "qk = tensor_of_fun (bs @ [m, n])
     (\<lambda>idx. \<Sum>l\<leftarrow>[0..<d]. get q (bidx bs (take (length bs) idx) @ [idx ! length bs, l]) *
                          get kt (bidx bs (take (length bs) idx) @ [l, idx ! Suc (length bs)]))"
  have tk: "transpose_dims k (- 2) (- 1) = Inr kt"
    unfolding kt_def by (rule transpose_last_two [OF k])
  have skt: "shape kt = bs @ [d, n]"
    by (simp add: kt_def)
  have mm: "matmul q kt = Inr qk"
    by (simp add: matmul_def q skt Let_def nth_append broadcast_shapes_same qk_def
        shape_update_same [OF q] shape_update_same [OF skt])
  have sc: "attention_scores q k = Inr (div_scalar qk (sqrt (real d)))"
    by (simp add: attention_scores_def q tk mm)
  have entry: "get (div_scalar qk (sqrt (real d))) (b @ [i, j]) =
        (\<Sum>l\<leftarrow>[0..<d]. get q (b @ [i, l]) * get k (b @ [j, l])) / sqrt (real d)"
    if b: "valid_index bs b" and i: "i < m" and j: "j < n" for b i j
  proof -
    have lb: "length b = length bs"
      using b by (rule valid_index_length)
    have vij: "valid_index (bs @ [m, n]) (b @ [i, j])"
      using b i j by (intro valid_index_append) (simp_all add: valid_index_def)
    have gkt: "get kt (b @ [l, j]) = get k (b @ [j, l])" if "l < d" for l
    proof -
      have "valid_index (bs @ [d, n]) (b @ [l, j])"
        using b that j by (intro valid_index_append) (simp_all add: valid_index_def)
      then show ?thesis
        by (simp add: kt_def get_tensor_of_fun swap_last_two lb)
    qed
    have "get qk (b @ [i, j]) = (\<Sum>l\<leftarrow>[0..<d]. get q (b @ [i, l]) * get kt (b @ [l, j]))"
      by (simp add: qk_def get_tensor_of_fun vij lb nth_append bidx_valid b)
    also have "\<dots> = (\<Sum>l\<leftarrow>[0..<d]. get q (b @ [i, l]) * get k (b @ [j, l]))"
      by (rule arg_cong [where f = sum_list], rule map_cong) (simp_all add: gkt)
    finally have g:
      "get qk (b @ [i, j]) = (\<Sum>l\<leftarrow>[0..<d]. get q (b @ [i, l]) * get k (b @ [j, l]))" .
    have "well_formed qk" "shape qk = bs @ [m, n]"
      by (simp_all add: qk_def)
    then show ?thesis
      by (simp add: div_scalar_def get_map_tensor vij g)
  qed
  have "shape (div_scalar qk (sqrt (real d))) = bs @ [m, n]"
    by (simp add: div_scalar_def qk_def)
  moreover have "0 < sqrt (real d)"
    using d by simp
  ultimately show ?thesis
    using sc entry by blast
qed

text \<open>
  The query \<open>[[3, 4]]\<close> against the key \<open>[[1, 2]]\<close>: width 2, score \<open>11 / \<surd>2\<close>.
\<close>

lemma attention_scores_dot_products_example:
  "\<exists>s. attention_scores \<lparr>shape = [1, 2], data = [3, 4]\<rparr> \<lparr>shape = [1, 2], data = [1, 2]\<rparr> = Inr s \<and>
       shape s = [1, 1] \<and> get s [0, 0] = 11 / sqrt 2"
proof -
  let ?q = "\<lparr>shape = [1, 2], data = [3, 4 :: real]\<rparr>"
  let ?k = "\<lparr>shape = [1, 2], data = [1, 2 :: real]\<rparr>"
  obtain s where s: "attention_scores ?q ?k = Inr s" "shape s = [] @ [1, 1]"
    and e: "\<forall>b i j. valid_index [] b \<and> i < 1 \<and> j < 1 \<longrightarrow>
              get s (b @ [i, j]) =
                (\<Sum>l\<leftarrow>[0..<2]. get ?q (b @ [i, l]) * get ?k (b @ [j, l])) / sqrt (real 2)"
    using attention_scores_dot_products [of ?q "[]" 1 2 ?k 1] by auto
  have "get s ([] @ [0, 0]) =
          (\<Sum>l\<leftarrow>[0..<2]. get ?q ([] @ [0, l]) * get ?k ([] @ [0, l])) / sqrt (real 2)"
    by (intro e [rule_format]) simp
  then have "get s [0, 0] = 11 / sqrt 2"
    by (simp add: get_def upt_small)
  then show ?thesis
    using s by auto
qed

text \<open>A query that is a single vector is scaled by the root of its length as well.\<close>

lemma attention_scores_rank1_query:
  "attention_scores \<lparr>shape = [2], data = [3, 4]\<rparr> \<lparr>shape = [1, 2], data = [1, 2]\<rparr> =
     Inr \<lparr>shape = [1], data = [11 / sqrt 2]\<rparr>"
proof -
  define Q :: "real tensor" where "Q = \<lparr>shape = [2], data = [3, 4]\<rparr>"
  define K :: "real tensor" where "K = \<lparr>shape = [1, 2], data = [1, 2]\<rparr>"
  define KT :: "real tensor" where "KT = \<lparr>shape = [2, 1], data = [1, 2]\<rparr>"
  define QK :: "real tensor" where "QK = \<lparr>shape = [1], data = [11]\<rparr>"
  have sq: "shape Q \<noteq> []" "last (shape Q) = 2"
    by (simp_all add: Q_def)
  have tk: "transpose_dims K (- 2) (- 1) = Inr KT"
    by (simp add: transpose_dims_def K_def KT_def ev)
  have mm: "matmul Q KT = Inr QK"
    by (simp add: matmul_def Q_def KT_def QK_def ev)
  have "attention_scores Q K = Inr \<lparr>shape = [1], data = [11 / sqrt 2]\<rparr>"
    by (simp add: attention_scores_def sq tk mm) (simp add: div_scalar_def map_tensor_def QK_def)
  then show ?thesis
    unfolding Q_def K_def .
qed

lemma matmul_well_formed: "matmul a b = Inr r \<Longrightarrow> well_formed r"
  by (auto simp: matmul_def Let_def well_formed_def tensor_of_fun_def nth_append
      split: if_splits option.splits)

lemma get_div_scalar:
  "well_formed t \<Longrightarrow> valid_index (shape t) idx \<Longrightarrow> get (div_scalar t c) idx = get t idx / c"
  by (simp add: div_scalar_def get_map_tensor)

text \<open>
  Claim C10. In every call of \<open>attention\<close>, whatever the ranks of query and key and
  however their leading axes broadcast, the only use of the raw scores
  \<open>matmul(query, key.transpose(-2,-1))\<close> is their division by
  \<open>\<surd>(query.shape[-1])\<close>: the function is the composition below, in which no
  other width appears and which has no argument that could carry a configured
  \<open>d_k\<close>. When the query's last dimension \<open>d\<close> is at least 1 the divisor is
  positive, and every entry of the scaled scores is the entry of the raw scores divided
  by \<open>\<surd>d\<close>.
\<close>

theorem attention_divides_by_sqrt_of_query_width:
  "attention q k v msk dr rng =
     (if shape q = [] then Inl IndexError
      else bindE (transpose_dims k (- 2) (- 1)) (\<lambda>kt.
           bindE (matmul q kt) (\<lambda>qk.
           bindE (case msk of
                    None \<Rightarrow> Inr (div_scalar qk (sqrt (real (last (shape q)))))
                  | Some m \<Rightarrow> masked_fill (div_scalar qk (sqrt (real (last (shape q)))))
                               (eq_scalar m False) (1 / 10 ^ 9)) (\<lambda>x.
           matmul (case dr of None \<Rightarrow> softmax_last x
                   | Some d \<Rightarrow> Dropout_forward d rng (softmax_last x)) v)))) \<and>
   (1 \<le> last (shape q) \<longrightarrow> 0 < sqrt (real (last (shape q)))) \<and>
   (1 \<le> last (shape q) \<longrightarrow> matmul q kt = Inr qk \<longrightarrow> valid_index (shape qk) idx \<longrightarrow>
      get (div_scalar qk (sqrt (real (last (shape q))))) idx =
        get qk idx / sqrt (real (last (shape q))))"
proof -
  have 1: "attention q k v msk dr rng =
     (if shape q = [] then Inl IndexError
      else bindE (transpose_dims k (- 2) (- 1)) (\<lambda>kt.
           bindE (matmul q kt) (\<lambda>qk.
           bindE (case msk of
                    None \<Rightarrow> Inr (div_scalar qk (sqrt (real (last (shape q)))))
                  | Some m \<Rightarrow> masked_fill (div_scalar qk (sqrt (real (last (shape q)))))
                               (eq_scalar m False) (1 / 10 ^ 9)) (\<lambda>x.
           matmul (case dr of None \<Rightarrow> softmax_last x
                   | Some d \<Rightarrow> Dropout_forward d rng (softmax_last x)) v))))"
    by (simp add: attention_def attention_weights_def attention_scores_def bindE_def Let_def
        split: sum.splits option.splits)
  have 2: "1 \<le> last (shape q) \<longrightarrow> 0 < sqrt (real (last (shape q)))"
    by simp
  have 3: "get (div_scalar qk (sqrt (real (last (shape q))))) idx =
        get qk idx / sqrt (real (last (shape q)))"
    if "matmul q kt = Inr qk" "valid_index (shape qk) idx"
    using that by (intro get_div_scalar matmul_well_formed)
  show ?thesis using 1 2 3 by blast
qed

text \<open>
  The query \<open>[[3, 4]]\<close>, the key \<open>[[1, 2]]\<close> and the value \<open>[[7]]\<close>: width 2, raw
  score 11, scaled score \<open>11 / \<surd>2\<close>, output \<open>[[7]]\<close>.
\<close>

theorem attention_divides_by_sqrt_of_query_width_witness:
  "attention \<lparr>shape = [1, 2], data = [3, 4]\<rparr> \<lparr>shape = [1, 2], data = [1, 2]\<rparr>
       \<lparr>shape = [1, 1], data = [7]\<rparr> None None (\<lambda>_. True) = Inr \<lparr>shape = [1, 1], data = [7]\<rparr> \<and>
   0 < sqrt (real 2) \<and>
   get (div_scalar \<lparr>shape = [1, 1], data = [11]\<rparr> (sqrt (real 2))) [0, 0] = 11 / sqrt (real 2)"
proof -
  define Q :: "real tensor" where "Q = \<lparr>shape = [1, 2], data = [3, 4]\<rparr>"
  define K :: "real tensor" where "K = \<lparr>shape = [1, 2], data = [1, 2]\<rparr>"
  define V :: "real tensor" where "V = \<lparr>shape = [1, 1], data = [7]\<rparr>"
  define KT :: "real tensor" where "KT = \<lparr>shape = [2, 1], data = [1, 2]\<rparr>"
  define QK :: "real tensor" where "QK = \<lparr>shape = [1, 1], data = [11]\<rparr>"
  define S :: "real tensor" where "S = \<lparr>shape = [1, 1], data = [11 / sqrt (real 2)]\<rparr>"
  define W :: "real tensor" where "W = \<lparr>shape = [1, 1], data = [1]\<rparr>"
  have sq: "shape Q \<noteq> []" "last (shape Q) = 2"
    by (simp_all add: Q_def)
  have tk: "transpose_dims K (- 2) (- 1) = Inr KT"
    by (simp add: transpose_dims_def K_def KT_def ev)
  have mm: "matmul Q KT = Inr QK"
    by (simp add: matmul_def Q_def KT_def QK_def ev)
  have ds: "div_scalar QK (sqrt 2) = S"
    by (simp add: div_scalar_def QK_def S_def map_tensor_def)
  have sm: "softmax_last S = W"
    by (simp add: softmax_last_def S_def W_def ev)
  have mv: "matmul W V = Inr V"
    by (simp add: matmul_def W_def V_def ev)
  have vi: "valid_index (shape QK) [0, 0]"
    by (simp add: QK_def valid_index_def)
  note th = attention_divides_by_sqrt_of_query_width
    [of Q K V None None "\<lambda>_. True" KT QK "[0, 0]", unfolded sq]
  have a: "attention Q K V None None (\<lambda>_. True) = Inr V"
    using th by (simp add: sq tk mm ds sm mv)
  have b: "0 < sqrt (real 2)"
    using th by simp
  have c: "get (div_scalar QK (sqrt (real 2))) [0, 0] = get QK [0, 0] / sqrt (real 2)"
    using th mm vi by simp
  have "get QK [0, 0] = 11"
    by (simp add: QK_def get_def)
  then show ?thesis
    using a b c unfolding Q_def K_def V_def QK_def by simp
qed

section \<open>Determinism without dropout\<close>

lemma dropout_depends_on_rng:
  "Dropout_forward \<lparr>prob = 1 / 2, training = True\<rparr> (\<lambda>_. True) \<lparr>shape = [1], data = [1]\<rparr> \<noteq>
   Dropout_forward \<lparr>prob = 1 / 2, training = True\<rparr> (\<lambda>_. False) \<lparr>shape = [1], data = [1]\<rparr>"
  by (simp add: Dropout_forward_def upt_small)

lemma attention_weights_rng_irrelevant:
  "attention_weights q k m None rng = attention_weights q k m None (\<lambda>_. True)"
  by (simp add: attention_weights_def)

lemma attention_without_dropout:
  "prob d = 0 \<Longrightarrow> attention q k v m (Some d) rng = attention q k v m None (\<lambda>_. True)"
  by (simp add: attention_def attention_weights_def Dropout_forward_def Let_def)

lemma attend_without_dropout:
  "prob (mha_dropout self) = 0 \<Longrightarrow>
   MultiHeadAttention_attend (self\<lparr>attn := a\<rparr>) q k v m rng =
   MultiHeadAttention_attend self q k v m (\<lambda>_. True)"
  by (simp add: MultiHeadAttention_attend_def attention_without_dropout split_heads_def)

text \<open>
  Claim C9. With no dropout module, or with one of probability 0, the result of
  \<open>attention\<close> is the same for any two draws of the random generator; and the result
  of \<open>MultiHeadAttention.forward\<close> with dropout probability 0, a tensor or an
  exception, is the same for any two draws and whatever an earlier call left in
  \<open>attn\<close>. (\<open>dropout_depends_on_rng\<close>: with probability \<open>1/2\<close> the draw matters.)
\<close>

theorem forward_deterministic_without_dropout:
  "attention q k v m None rng1 = attention q k v m None rng2 \<and>
   attention q k v m (Some \<lparr>prob = 0, training = tr\<rparr>) rng1 =
     attention q k v m (Some \<lparr>prob = 0, training = tr\<rparr>) rng2 \<and>
   fst (MultiHeadAttention_forward (self\<lparr>mha_dropout := \<lparr>prob = 0, training = tr\<rparr>\<rparr>)
          q k v m rng1) =
     fst (MultiHeadAttention_forward
            (self\<lparr>mha_dropout := \<lparr>prob = 0, training = tr\<rparr>, attn := a\<rparr>) q k v m rng2)"
proof -
  let ?d = "\<lparr>prob = 0, training = tr\<rparr>"
  let ?s = "self\<lparr>mha_dropout := ?d\<rparr>"
  have 1: "attention q k v m None rng1 = attention q k v m None rng2"
    by (simp add: attention_def attention_weights_rng_irrelevant [of q k m rng1]
        attention_weights_rng_irrelevant [of q k m rng2])
  have 2: "attention q k v m (Some ?d) rng1 = attention q k v m (Some ?d) rng2"
    by (simp add: attention_without_dropout)
  have "MultiHeadAttention_attend (?s\<lparr>attn := a\<rparr>) q k v m rng2 =
        MultiHeadAttention_attend ?s q k v m (\<lambda>_. True)"
    by (rule attend_without_dropout) simp
  moreover have "MultiHeadAttention_attend (?s\<lparr>attn := attn ?s\<rparr>) q k v m rng1 =
        MultiHeadAttention_attend ?s q k v m (\<lambda>_. True)"
    by (rule attend_without_dropout) simp
  ultimately have "MultiHeadAttention_attend (?s\<lparr>attn := a\<rparr>) q k v m rng2 =
        MultiHeadAttention_attend ?s q k v m rng1"
    by simp
  then have 3: "fst (MultiHeadAttention_forward ?s q k v m rng1) =
     fst (MultiHeadAttention_forward (?s\<lparr>attn := a\<rparr>) q k v m rng2)"
    unfolding MultiHeadAttention_forward_def
    by (cases "MultiHeadAttention_attend ?s q k v m rng1")
       (auto split: prod.splits cong: list.case_cong)
  show ?thesis
    using 1 2 3 by simp
qed

section \<open>The causal mask is lower triangular\<close>

text \<open>
  Claim C2, as stated for every sequence length \<open>n \<ge> 0\<close>, fails where torch refuses
  the size: at \<open>n = 2\<^sup>6\<^sup>3\<close> the size is not a 64-bit integer and
  \<open>torch.ones\<close> raises TypeError, and at \<open>n = 2\<^sup>4\<^sup>0\<close> the storage size
  overflows and it raises RuntimeError.
\<close>

theorem forward_mask_refuses_huge_sizes:
  "forward_mask (2 ^ 63) = Inl TypeError \<and> forward_mask (2 ^ 40) = Inl RuntimeError"
  by (simp add: forward_mask_def ones_def check_size_def int64_max_def)

text \<open>
  Claim C2, amended. For every sequence length \<open>n \<ge> 0\<close> whose float tensor of shape
  \<open>(1, n, n)\<close> has a storage size within 64 bits (\<open>4 n\<^sup>2 \<le> 2\<^sup>6\<^sup>3 - 1\<close>),
  \<open>forward_mask n\<close> returns a boolean tensor of shape \<open>(1, n, n)\<close> whose entry
  \<open>[0, i, j]\<close> is true iff \<open>j \<le> i\<close>; the diagonal is true. The result is a function
  of \<open>n\<close> alone. (The drawing in the function's docstring has a false diagonal; the
  body, with \<open>diagonal=1\<close>, does not.)
\<close>

theorem forward_mask_causal:
  assumes "0 \<le> n" and "4 * n * n \<le> 2 ^ 63 - 1"
  shows "\<exists>M. forward_mask n = Inr M \<and> shape M = [1, nat n, nat n] \<and> well_formed M \<and>
           (\<forall>i j. i < nat n \<and> j < nat n \<longrightarrow> get M [0, i, j] = (j \<le> i))"
proof -
  define sh where "sh = [1, nat n, nat n]"
  define t1 :: "real tensor" where "t1 = tensor_of_fun sh (\<lambda>_. 1)"
  define u where "u = tensor_of_fun sh
    (\<lambda>idx. if 1 \<le> int (idx ! (3 - 1)) - int (idx ! (3 - 2)) then get t1 idx else 0)"
  define M where "M = eq_scalar (to_uint8 u) 0"
  have "n \<le> n * n"
  proof (cases "n = 0")
    case True
    then show ?thesis by simp
  next
    case False
    then have "1 \<le> n" using assms(1) by simp
    then have "n * 1 \<le> n * n" by (intro mult_left_mono) simp_all
    then show ?thesis by simp
  qed
  moreover have "0 \<le> n * n"
    by simp
  ultimately have nb: "n \<le> 2 ^ 63 - 1" "4 * (n * n) \<le> 2 ^ 63 - 1"
    using assms(2) by simp_all
  have o: "ones [1, n, n] = Inr t1"
    using assms(1) nb by (simp add: ones_def check_size_def int64_max_def t1_def sh_def)
  have tr: "triu t1 1 = Inr u"
    unfolding triu_def u_def t1_def sh_def by (simp add: numeral_2_eq_2)
  have fm: "forward_mask n = Inr M"
    by (simp add: forward_mask_def o tr M_def)
  have shM: "shape M = sh" "well_formed M"
    by (simp_all add: M_def eq_scalar_def to_uint8_def u_def)
  have entry: "get M [0, i, j] = (j \<le> i)" if "i < nat n" "j < nat n" for i j
  proof -
    have v: "valid_index sh [0, i, j]"
      using that by (simp add: valid_index_def sh_def)
    have gu: "get u [0, i, j] = (if j \<le> i then 0 else 1)"
      by (simp add: u_def t1_def get_tensor_of_fun v)
    have "get M [0, i, j] = ((word_of_int (trunc (get u [0, i, j])) :: 8 word) = 0)"
      by (simp add: M_def eq_scalar_def to_uint8_def get_map_tensor v u_def)
    then show ?thesis
      by (simp add: gu trunc_def)
  qed
  show ?thesis
    using fm shM entry by (auto simp: sh_def)
qed

text \<open>Length 4: the rows \<open>[T,F,F,F]\<close>, \<open>[T,T,F,F]\<close>, \<open>[T,T,T,F]\<close>, \<open>[T,T,T,T]\<close>.\<close>

theorem forward_mask_causal_witness:
  "\<exists>M. forward_mask 4 = Inr M \<and> shape M = [1, 4, 4] \<and>
     map (\<lambda>i. map (\<lambda>j. get M [0, i, j]) [0, 1, 2, 3]) [0, 1, 2, 3] =
       [[True, False, False, False], [True, True, False, False],
        [True, True, True, False], [True, True, True, True]]"
  using forward_mask_causal [of 4] by auto

section \<open>LayerNorm and Sublayer raise\<close>

lemma LayerNorm_init_defaults:
  "0 \<le> features \<Longrightarrow> 4 * features \<le> 2 ^ 63 - 1 \<Longrightarrow> LayerNorm_init features None =
     Inr \<lparr>eps = 1 / 10 ^ 6, gamma = tensor_of_fun [nat features] (\<lambda>_. 1),
          beta = tensor_of_fun [nat features] (\<lambda>_. 0)\<rparr>"
  by (simp add: LayerNorm_init_def ones_def zeros_def check_size_def int64_max_def)

text \<open>
  Claim C4. The claim: \<open>LayerNorm.forward\<close> returns
  \<open>gamma * (x - \<mu>) / (\<sigma> + \<epsilon>) + beta\<close>. The constructor does set \<open>eps\<close> to
  \<open>10\<^sup>-\<^sup>6\<close>, \<open>gamma\<close> to ones and \<open>beta\<close> to zeros, but \<open>forward\<close> reads the
  unbound name \<open>eps\<close>: on the input \<open>[[1, 2]]\<close> it raises NameError, and on no module
  and no input does it return a tensor.
\<close>

theorem LayerNorm_forward_raises:
  "(\<exists>self. LayerNorm_init 2 None = Inr self \<and> eps self = 1 / 10 ^ 6 \<and>
      data (gamma self) = [1, 1] \<and> data (beta self) = [0, 0] \<and>
      LayerNorm_forward notebook_globals self \<lparr>shape = [1, 2], data = [1, 2]\<rparr> =
        Inl (NameError ''eps'')) \<and>
   (LayerNorm_forward notebook_globals self' x = Inl (NameError ''eps'') \<or>
    LayerNorm_forward notebook_globals self' x = Inl RuntimeError)"
proof -
  have "\<exists>self. LayerNorm_init 2 None = Inr self \<and> eps self = 1 / 10 ^ 6 \<and>
      data (gamma self) = [1, 1] \<and> data (beta self) = [0, 0] \<and>
      LayerNorm_forward notebook_globals self \<lparr>shape = [1, 2], data = [1, 2]\<rparr> =
        Inl (NameError ''eps'')"
    by (simp add: LayerNorm_init_def ones_def zeros_def check_size_def int64_max_def LayerNorm_forward_def reduce_last_def
        binop_def load_unbound ev)
  moreover have "LayerNorm_forward notebook_globals self' x = Inl (NameError ''eps'') \<or>
      LayerNorm_forward notebook_globals self' x = Inl RuntimeError"
    by (simp add: LayerNorm_forward_def load_unbound Let_def bindE_def split: sum.splits)
       (auto simp: binop_def split: option.splits)
  ultimately show ?thesis ..
qed

text \<open>
  Claim C3. The claim: \<open>Sublayer.forward\<close> computes \<open>x + dropout(f(layernorm(x)))\<close>.
  The constructor stores the normalisation under the attribute \<open>layernorm\<close> and
  \<open>forward\<close> reads the attribute \<open>norm\<close>: on every module the constructor builds,
  every input and every sublayer function, \<open>forward\<close> raises AttributeError.
\<close>

theorem Sublayer_forward_raises:
  "Sublayer_init sz p = Inr self \<Longrightarrow>
   Sublayer_forward G self rng x f = Inl (AttributeError ''norm'')"
  by (auto simp: Sublayer_init_def Sublayer_forward_def getattr_def LayerNorm_init_def
      nn_Dropout_def ones_def zeros_def check_size_def int64_max_def split: if_splits)

theorem Sublayer_forward_raises_witness:
  "\<exists>self. Sublayer_init 4 (1 / 10) = Inr self \<and>
     (\<forall>G rng x f. Sublayer_forward G self rng x f = Inl (AttributeError ''norm''))"
proof -
  obtain self where s: "Sublayer_init 4 (1 / 10) = Inr self"
    by (simp add: Sublayer_init_def LayerNorm_init_def nn_Dropout_def ones_def zeros_def check_size_def int64_max_def)
  show ?thesis
    using s Sublayer_forward_raises [OF s] by blast
qed

section \<open>Multi-head attention: construction and forward\<close>

text \<open>
  With the name \<open>numbers\<close> bound, the constructor does what its text says: it fails on
  \<open>h = 0\<close>, on \<open>d_model % h \<noteq> 0\<close>, on a width torch refuses and on a probability
  outside \<open>[0, 1]\<close>, and otherwise sets \<open>d_k = d_model // h\<close>.
\<close>

lemma MultiHeadAttention_init_with_numbers:
  "MultiHeadAttention_init (notebook_globals(''numbers'' \<mapsto> Opaque)) hh d_model p init =
     (if hh = 0 then Inl ZeroDivisionError
      else if d_model mod hh \<noteq> 0 then Inl AssertionError
      else if d_model < - (2 ^ 63) \<or> 2 ^ 63 - 1 < d_model then Inl TypeError
      else if d_model < 0 \<or> 2 ^ 63 - 1 < 4 * (d_model * d_model) then Inl RuntimeError
      else if p < 0 \<or> 1 < p then Inl ValueError
      else Inr \<lparr>d_k = d_model div hh, h = hh,
                linears = replicate 4 \<lparr>weight = tensor_of_fun [nat d_model, nat d_model] init,
                                        bias = tensor_of_fun [nat d_model] init\<rparr>,
                attn = None, mha_dropout = \<lparr>prob = p, training = True\<rparr>\<rparr>)"
  by (simp add: MultiHeadAttention_init_def nn_Linear_def clone_def load_global_def nn_Dropout_def
      check_size_def int64_max_def)

lemma mha_unit_from_init:
  "MultiHeadAttention_init (notebook_globals(''numbers'' \<mapsto> Opaque)) 1 1 0 init_unit = Inr mha_unit"
  by (simp add: MultiHeadAttention_init_with_numbers mha_unit_def lin_unit_def init_unit_def ev
      numeral_eq_Suc)

text \<open>
  Claim C7. The claim: construction fails iff \<open>d_model % h \<noteq> 0\<close>, and otherwise sets
  \<open>d_k = d_model / h\<close>. The notebook never imports \<open>numbers\<close>, which \<open>clone\<close>
  reads: \<^verbatim>\<open>MultiHeadAttention(h=2, d_model=4)\<close> raises NameError although 2 divides 4,
  and no arguments construct a module.
\<close>

theorem MultiHeadAttention_init_raises:
  "(4 :: int) mod 2 = 0 \<and>
   MultiHeadAttention_init notebook_globals 2 4 (1 / 10) init = Inl (NameError ''numbers'') \<and>
   (\<exists>e. MultiHeadAttention_init notebook_globals hh d_model p init' = Inl e)"
  by (auto simp: MultiHeadAttention_init_def clone_def load_unbound nn_Linear_def bindE_def
      check_size_def int64_max_def split: sum.splits)

text \<open>
  Claim C6. The claim: \<open>forward\<close> returns a tensor of shape \<open>[batch, seq, d_model]\<close>.
  On the module for \<open>h = 1\<close>, \<open>d_model = 1\<close>, an input of shape \<open>[1, 1, 1]\<close> raises
  ValueError where the single result of \<open>attention\<close> is unpacked into two targets; an
  input of shape \<open>[2, 2, 1]\<close> is unpacked along its batch axis, and \<open>forward\<close> returns
  a tensor of shape \<open>[2, 1, 1]\<close> and stores the second batch entry in \<open>attn\<close>.
\<close>

theorem MultiHeadAttention_forward_shape_broken:
  "MultiHeadAttention_forward mha_unit x_single x_single x_single None rng =
     (Inl ValueError, mha_unit) \<and>
   shape x_pair = [2, 2, 1] \<and>
   MultiHeadAttention_forward mha_unit x_pair x_pair x_pair None rng =
     (Inr \<lparr>shape = [2, 1, 1], data = [1, 1]\<rparr>,
      mha_unit\<lparr>attn := Some \<lparr>shape = [1, 2, 1], data = [1, 1]\<rparr>\<rparr>)"
proof -
  have dr: "mha_dropout mha_unit = \<lparr>prob = 0, training = True\<rparr>"
    by (simp add: mha_unit_def)
  have ls: "linears mha_unit = [lin_unit, lin_unit, lin_unit, lin_unit]"
    by (simp add: mha_unit_def)
  have single: "MultiHeadAttention_forward mha_unit x_single x_single x_single None rng =
     (Inl ValueError, mha_unit)"
  proof -
    define y :: "real tensor" where "y = \<lparr>shape = [1, 1, 1, 1], data = [1]\<rparr>"
    have l: "Linear_forward lin_unit x_single = Inr x_single"
      by (simp add: Linear_forward_def lin_unit_def x_single_def ev)
    have v: "view x_single [1, - 1, 1, 1] = Inr y"
      by (simp add: view_def x_single_def y_def)
    have tr: "transpose_dims y 1 2 = Inr y" "transpose_dims y (- 2) (- 1) = Inr y"
      by (simp_all add: transpose_dims_def y_def ev)
    have sh: "split_heads mha_unit (Suc 0) (lin_unit, x_single) = Inr y"
      unfolding split_heads_def by (simp add: l) (simp add: mha_unit_def v tr)
    have mm: "matmul y y = Inr y"
      by (simp add: matmul_def y_def ev)
    have shy: "shape y \<noteq> []" "last (shape y) = 1"
      by (simp_all add: y_def)
    have sc: "attention_scores y y = Inr y"
      by (simp add: attention_scores_def shy tr mm div_scalar_def) (simp add: y_def map_tensor_def)
    have sm: "softmax_last y = y"
      by (simp add: softmax_last_def y_def ev)
    have at: "attention y y y None (Some (mha_dropout mha_unit)) rng = Inr y"
      by (simp add: attention_def attention_weights_def sc sm dr Dropout_forward_def mm)
    have un: "unpack2 y = Inl ValueError"
      by (simp add: unpack2_def y_def)
    have sx: "shape x_single = [1, 1, 1]"
      by (simp add: x_single_def)
    have "MultiHeadAttention_attend mha_unit x_single x_single x_single None rng = Inl ValueError"
      by (simp add: MultiHeadAttention_attend_def ls sx sh at un)
    then show ?thesis
      by (simp add: MultiHeadAttention_forward_def)
  qed
  have pair: "MultiHeadAttention_forward mha_unit x_pair x_pair x_pair None rng =
     (Inr \<lparr>shape = [2, 1, 1], data = [1, 1]\<rparr>,
      mha_unit\<lparr>attn := Some \<lparr>shape = [1, 2, 1], data = [1, 1]\<rparr>\<rparr>)"
  proof -
    define y :: "real tensor" where "y = \<lparr>shape = [2, 2, 1, 1], data = [1, 1, 1, 1]\<rparr>"
    define u :: "real tensor" where "u = \<lparr>shape = [2, 1, 2, 1], data = [1, 1, 1, 1]\<rparr>"
    define ut :: "real tensor" where "ut = \<lparr>shape = [2, 1, 1, 2], data = [1, 1, 1, 1]\<rparr>"
    define s :: "real tensor" where
      "s = \<lparr>shape = [2, 1, 2, 2], data = [1, 1, 1, 1, 1, 1, 1, 1]\<rparr>"
    define w :: "real tensor" where
      "w = \<lparr>shape = [2, 1, 2, 2],
            data = [1 / 2, 1 / 2, 1 / 2, 1 / 2, 1 / 2, 1 / 2, 1 / 2, 1 / 2]\<rparr>"
    define x0 :: "real tensor" where "x0 = \<lparr>shape = [1, 2, 1], data = [1, 1]\<rparr>"
    define x1 :: "real tensor" where "x1 = \<lparr>shape = [1, 1, 2], data = [1, 1]\<rparr>"
    define x2 :: "real tensor" where "x2 = \<lparr>shape = [2, 1, 1], data = [1, 1]\<rparr>"
    have l: "Linear_forward lin_unit x_pair = Inr x_pair"
      by (simp add: Linear_forward_def lin_unit_def x_pair_def ev)
    have v: "view x_pair [2, - 1, 1, 1] = Inr y"
      by (simp add: view_def x_pair_def y_def)
    have tr: "transpose_dims y 1 2 = Inr u"
      by (simp add: transpose_dims_def y_def u_def ev)
    have sh: "split_heads mha_unit 2 (lin_unit, x_pair) = Inr u"
      unfolding split_heads_def by (simp add: l) (simp add: mha_unit_def v tr)
    have tk: "transpose_dims u (- 2) (- 1) = Inr ut"
      by (simp add: transpose_dims_def u_def ut_def ev)
    have mm: "matmul u ut = Inr s"
      by (simp add: matmul_def u_def ut_def s_def ev)
    have shu: "shape u \<noteq> []" "last (shape u) = 1"
      by (simp_all add: u_def)
    have sc: "attention_scores u u = Inr s"
      by (simp add: attention_scores_def shu tk mm div_scalar_def) (simp add: s_def map_tensor_def)
    have sm: "softmax_last s = w"
      by (simp add: softmax_last_def s_def w_def ev)
    have mv: "matmul w u = Inr u"
      by (simp add: matmul_def w_def u_def ev)
    have at: "attention u u u None (Some (mha_dropout mha_unit)) rng = Inr u"
      by (simp add: attention_def attention_weights_def sc sm dr Dropout_forward_def mv)
    have un: "unpack2 u = Inr (x0, x0)"
      by (simp add: unpack2_def select0_def u_def x0_def)
    have sx: "shape x_pair = [2, 2, 1]"
      by (simp add: x_pair_def)
    have att: "MultiHeadAttention_attend mha_unit x_pair x_pair x_pair None rng = Inr (2, x0, x0)"
      by (simp add: MultiHeadAttention_attend_def ls sx sh at un)
    have t0: "transpose_dims x0 1 2 = Inr x1"
      by (simp add: transpose_dims_def x0_def x1_def ev)
    have hd: "h mha_unit * d_k mha_unit = 1"
      by (simp add: mha_unit_def)
    have v2: "view x1 [2, - 1, 1] = Inr x2"
      by (simp add: view_def x1_def x2_def)
    have l2: "Linear_forward lin_unit x2 = Inr x2"
      by (simp add: Linear_forward_def lin_unit_def x2_def ev)
    show ?thesis
      by (simp add: MultiHeadAttention_forward_def att t0 hd v2 ls l2) (simp add: x0_def x2_def)
  qed
  have "shape x_pair = [2, 2, 1]"
    by (simp add: x_pair_def)
  then show ?thesis
    using single pair by simp
qed

section \<open>The stacks raise\<close>

text \<open>
  Had the loop read the module's own layers, it would run them in order; with no layer
  it returns its input.
\<close>

lemma run_layers_append:
  "run_layers (ls @ ks) x = bindE (run_layers ls x) (run_layers ks)"
  by (induction ls arbitrary: x) (simp_all add: bindE_def split: sum.splits)

lemma Encoder_forward_with_stack_bound:
  "Encoder_forward (notebook_globals(''encoder_stack'' \<mapsto> Layers ls)) self x = run_layers ls x"
  by (simp add: Encoder_forward_def load_global_def)

text \<open>
  Claim C8. The claim: the forward of a stack is the composition of its \<open>N\<close> layers,
  and the identity for \<open>N = 0\<close>. The loops run over the unbound names
  \<open>encoder_stack\<close> and \<open>decoder_stack\<close>: on every stack, the empty one included, and
  every input, the forward raises NameError; and the constructors raise NameError in
  \<open>clone\<close> for every layer and every \<open>N\<close>.
\<close>

theorem stack_forward_raises:
  "Encoder_forward notebook_globals \<lparr>encoder_stack = []\<rparr> x = Inl (NameError ''encoder_stack'') \<and>
   Encoder_forward notebook_globals enc x = Inl (NameError ''encoder_stack'') \<and>
   Decoder_forward notebook_globals dec x = Inl (NameError ''decoder_stack'') \<and>
   Encoder_init notebook_globals l N = Inl (NameError ''numbers'') \<and>
   Decoder_init notebook_globals l N = Inl (NameError ''numbers'')"
  by (simp add: Encoder_forward_def Decoder_forward_def Encoder_init_def Decoder_init_def
      clone_def load_unbound)

end
